theory Spec2Isabelle
  imports Complex_Main "HOL-Library.Multiset" "HOL-Library.Sublist" "HOL-Library.Char_ord" "HOL-Library.List_Lexorder"
begin

section \<open>Values of the language\<close>

text \<open>
  A string is the list of its code units; the accented letters of the controller's
  messages are the Latin-1 code units (\<open>0xC9\<close> is E acute, \<open>0xE9\<close> e acute,
  \<open>0xE8\<close> e grave, \<open>0xE0\<close> a grave).

  A number is \<open>NaN\<close>, an infinity or a finite value. Finite values are exact rationals:
  the rounding of binary64 is not part of this development.
\<close>

datatype jsnum = NaN | NegInf | Fin rat | PosInf

datatype jsval = JUndefined | JNull | JBool bool | JNum jsnum | JStr string

text \<open>A regular-expression object is its pattern source and its flags.\<close>

datatype regexp = RegExp (source: string) (flags: string)

text \<open>
  A thrown error: \<open>error.name\<close>, \<open>error.code\<close> (absent, a number or a string) and
  \<open>error.message\<close>.
\<close>

datatype errcode = NoCode | NumCode int | StrCode string

record js_error =
  err_name :: string
  err_code :: errcode
  err_message :: string

text \<open>
  A query-string parameter is absent (\<open>None\<close>) or a string. \<open>if (q)\<close> takes the branch
  exactly when the parameter is a non-empty string. A repeated or bracketed parameter,
  which the framework parses to an array or an object, is not part of this development.
\<close>

definition truthy :: "string option \<Rightarrow> bool" where
  "truthy p = (case p of None \<Rightarrow> False | Some s \<Rightarrow> s \<noteq> [])"

text \<open>
  A request body is a JSON object: its properties in order, each a scalar here. A
  missing property reads \<open>undefined\<close>.
\<close>

type_synonym body = "(string \<times> jsval) list"

definition get_prop :: "body \<Rightarrow> string \<Rightarrow> jsval" where
  "get_prop b k = (case map_of b k of None \<Rightarrow> JUndefined | Some v \<Rightarrow> v)"

subsection \<open>\<open>parseInt\<close> and \<open>parseFloat\<close>\<close>

definition is_space :: "char \<Rightarrow> bool" where
  "is_space c = (of_char c \<in> {9, 10, 11, 12, 13, 32, 160 :: nat})"

definition digit_value :: "char \<Rightarrow> nat option" where
  "digit_value c =
     (let n = (of_char c :: nat) in
      if 48 \<le> n \<and> n \<le> 57 then Some (n - 48)
      else if 97 \<le> n \<and> n \<le> 122 then Some (n - 87)
      else if 65 \<le> n \<and> n \<le> 90 then Some (n - 55)
      else None)"

definition is_digit :: "nat \<Rightarrow> char \<Rightarrow> bool" where
  "is_digit radix c = (case digit_value c of None \<Rightarrow> False | Some d \<Rightarrow> d < radix)"

definition digits_value :: "nat \<Rightarrow> string \<Rightarrow> nat" where
  "digits_value radix ds = foldl (\<lambda>acc c. acc * radix + (case digit_value c of None \<Rightarrow> 0 | Some d \<Rightarrow> d)) 0 ds"

text \<open>
  \<open>parseInt(s)\<close> with no radix: leading white space is skipped, a sign is read, a
  \<open>0x\<close> or \<open>0X\<close> prefix selects radix 16, and the longest run of digits is the value;
  no digit at all gives \<open>NaN\<close>. What follows the digits is ignored.
\<close>

definition parseInt :: "string \<Rightarrow> jsnum" where
  "parseInt s =
     (let s1 = dropWhile is_space s;
          neg = (case s1 of [] \<Rightarrow> False | c # _ \<Rightarrow> c = CHR ''-'');
          s2 = (case s1 of [] \<Rightarrow> [] | c # r \<Rightarrow> if c = CHR ''+'' \<or> c = CHR ''-'' then r else s1);
          hex = (take 2 s2 = ''0x'' \<or> take 2 s2 = ''0X'');
          radix = (if hex then 16 else 10);
          s3 = (if hex then drop 2 s2 else s2);
          z = takeWhile (is_digit radix) s3
      in if z = [] then NaN
         else Fin (of_int ((if neg then - 1 else 1) * int (digits_value radix z))))"

text \<open>
  \<open>parseFloat(s)\<close>: leading white space is skipped and the longest prefix that is a
  decimal literal is the value: a sign, then \<open>Infinity\<close>, or digits with an optional
  fraction and an optional exponent (an exponent needs at least one digit). No such
  prefix gives \<open>NaN\<close>.
\<close>

definition parseFloat :: "string \<Rightarrow> jsnum" where
  "parseFloat s =
     (let s1 = dropWhile is_space s;
          neg = (case s1 of [] \<Rightarrow> False | c # _ \<Rightarrow> c = CHR ''-'');
          s2 = (case s1 of [] \<Rightarrow> [] | c # r \<Rightarrow> if c = CHR ''+'' \<or> c = CHR ''-'' then r else s1);
          ip = takeWhile (is_digit 10) s2;
          s3 = dropWhile (is_digit 10) s2;
          dot = (case s3 of [] \<Rightarrow> False | c # _ \<Rightarrow> c = CHR ''.'');
          fp = (if dot then takeWhile (is_digit 10) (tl s3) else []);
          s4 = (if dot then dropWhile (is_digit 10) (tl s3) else s3);
          s5 = (case s4 of [] \<Rightarrow> [] | c # r \<Rightarrow> if c = CHR ''e'' \<or> c = CHR ''E'' then r else []);
          eneg = (case s5 of [] \<Rightarrow> False | c # _ \<Rightarrow> c = CHR ''-'');
          s6 = (case s5 of [] \<Rightarrow> [] | c # r \<Rightarrow> if c = CHR ''+'' \<or> c = CHR ''-'' then r else s5);
          ep = takeWhile (is_digit 10) s6;
          mant = (of_nat (digits_value 10 (ip @ fp)) :: rat) / 10 ^ length fp;
          val = (if eneg then mant / 10 ^ digits_value 10 ep else mant * 10 ^ digits_value 10 ep)
      in if take 8 s2 = ''Infinity'' then (if neg then NegInf else PosInf)
         else if ip = [] \<and> fp = [] then NaN
         else Fin (if neg then - val else val))"

section \<open>Documents, queries and the persistence collaborator\<close>

text \<open>
  A student document. \<open>doc_id\<close> is the \<open>_id\<close> property; the other fields carry the
  names the controller uses.
\<close>

record etudiant =
  doc_id :: string
  nom :: string
  prenom :: string
  email :: string
  filiere :: string
  annee :: jsnum
  moyenne :: jsnum
  actif :: bool

text \<open>
  A filter object, property by property in insertion order: \<open>{ k: v }\<close> is
  \<open>FieldIs k (Equals v)\<close>, \<open>{ k: regex }\<close> is \<open>FieldIs k (Matches regex)\<close>,
  \<open>{ k: { $gte: a, $lte: b } }\<close> is \<open>FieldIs k (Ops [(Gte, a), (Lte, b)])\<close> and
  \<open>{ $or: [ ... ] }\<close> is \<open>AnyOf\<close> of the alternatives, each an object of field conditions.
\<close>

datatype cmp = Gte | Lte

datatype cond = Equals jsval | Matches regexp | Ops "(cmp \<times> jsnum) list"

datatype clause = FieldIs string cond | AnyOf "(string \<times> cond) list list"

type_synonym filter = "clause list"

fun clause_key :: "clause \<Rightarrow> string" where
  "clause_key (FieldIs k c) = k"
| "clause_key (AnyOf alts) = ''$or''"

definition filter_keys :: "filter \<Rightarrow> string list" where
  "filter_keys f = map clause_key f"

text \<open>The argument of \<open>.sort(...)\<close>: field names with \<open>1\<close> (ascending) or \<open>-1\<close> (descending).\<close>

type_synonym sort_options = "(string \<times> int) list"

record update_options =
  opt_new :: bool

text \<open>
  The controller reaches the store only through the imported model object
  \<open>Etudiant\<close>. The handlers below take that object as a parameter: one function per
  method they call, over the state \<open>'db\<close> of the store. An awaited call that rejects
  is \<open>Inl\<close> of the error; \<open>findOne\<close>, \<open>findById\<close> and \<open>find\<close> read the store,
  \<open>create\<close> and \<open>findByIdAndUpdate\<close> also return its next state. \<open>m_find\<close> takes the
  filter of \<open>find\<close> and the argument of \<open>sort\<close> (\<open>[]\<close> when the handler does not sort).
\<close>

record 'db model =
  m_findOne :: "filter \<Rightarrow> 'db \<Rightarrow> js_error + etudiant option"
  m_create :: "body \<Rightarrow> 'db \<Rightarrow> (js_error + etudiant) \<times> 'db"
  m_findById :: "string \<Rightarrow> 'db \<Rightarrow> js_error + etudiant option"
  m_findByIdAndUpdate ::
    "string \<Rightarrow> body \<Rightarrow> update_options \<Rightarrow> 'db \<Rightarrow> (js_error + etudiant option) \<times> 'db"
  m_find :: "filter \<Rightarrow> sort_options \<Rightarrow> 'db \<Rightarrow> js_error + etudiant list"

text \<open>
  \<open>new RegExp(pattern, flags)\<close> throws a \<open>SyntaxError\<close> on an invalid pattern and
  otherwise returns the object. The handlers take the constructor's syntax check as a
  parameter: \<open>chk pattern\<close> is the error thrown, if any.
\<close>

type_synonym syntax_check = "string \<Rightarrow> js_error option"

definition new_RegExp :: "syntax_check \<Rightarrow> string \<Rightarrow> string \<Rightarrow> js_error + regexp" where
  "new_RegExp chk pattern fl =
     (case chk pattern of Some err \<Rightarrow> Inl err | None \<Rightarrow> Inr (RegExp pattern fl))"

section \<open>Responses\<close>

datatype payload = Doc etudiant | Docs "etudiant list"

text \<open>The query parameters \<open>advancedSearch\<close> reads, echoed in its response as \<open>filters\<close>.\<close>

record adv_query =
  q_nom :: "string option"
  q_filiere :: "string option"
  q_anneeMin :: "string option"
  q_anneeMax :: "string option"
  q_moyenneMin :: "string option"

text \<open>
  \<open>res.status(s).json({...})\<close>: the status code and the envelope. A property the
  handler does not write, or writes as \<open>undefined\<close>, is \<open>None\<close>.
\<close>

record response =
  status :: nat
  success :: bool
  message :: "string option"
  error :: "string option"
  count :: "nat option"
  data :: "payload option"
  r_filiere :: "string option"
  r_query :: "string option"
  r_filters :: "adv_query option"
  r_sortBy :: "string option"
  r_order :: "string option"

definition json :: "nat \<Rightarrow> bool \<Rightarrow> response" where
  "json st ok =
     \<lparr>status = st, success = ok, message = None, error = None, count = None, data = None,
      r_filiere = None, r_query = None, r_filters = None, r_sortBy = None, r_order = None\<rparr>"

text \<open>The documents of a response whose \<open>data\<close> is an array.\<close>

definition docs_of :: "response \<Rightarrow> etudiant list" where
  "docs_of r = (case data r of Some (Docs es) \<Rightarrow> es | _ \<Rightarrow> [])"

definition msg_existe_deja :: string where
  "msg_existe_deja =
     ''Un '' @ [CHR 0xE9] @ ''tudiant avec ce nom et ce pr'' @ [CHR 0xE9] @ ''nom existe d''
       @ [CHR 0xE9] @ ''j'' @ [CHR 0xE0]"

definition msg_cree :: string where
  "msg_cree = [CHR 0xC9] @ ''tudiant cr'' @ [CHR 0xE9, CHR 0xE9] @ '' avec succ'' @ [CHR 0xE8] @ ''s''"

definition msg_email_existe :: string where
  "msg_email_existe = ''Cet email existe d'' @ [CHR 0xE9] @ ''j'' @ [CHR 0xE0]"

definition msg_donnees_invalides :: string where
  "msg_donnees_invalides = ''Donn'' @ [CHR 0xE9] @ ''es invalides''"

definition msg_non_trouve :: string where
  "msg_non_trouve = [CHR 0xC9] @ ''tudiant non trouv'' @ [CHR 0xE9]"

definition msg_erreur_serveur :: string where
  "msg_erreur_serveur = ''Erreur serveur''"

definition msg_desactive :: string where
  "msg_desactive =
     [CHR 0xC9] @ ''tudiant d'' @ [CHR 0xE9] @ ''sactiv'' @ [CHR 0xE9] @ '' avec succ'' @ [CHR 0xE8] @ ''s''"

definition msg_q_obligatoire :: string where
  "msg_q_obligatoire = ''Le param'' @ [CHR 0xE8] @ ''tre de recherche q est obligatoire''"

text \<open>The \<open>catch\<close> block shared by every handler but \<open>createEtudiant\<close>.\<close>

definition erreur_serveur :: "js_error \<Rightarrow> response" where
  "erreur_serveur err =
     (json 500 False)\<lparr>message := Some msg_erreur_serveur, error := Some (err_message err)\<rparr>"

definition non_trouve :: response where
  "non_trouve = (json 404 False)\<lparr>message := Some msg_non_trouve\<rparr>"

section \<open>The handlers of \<open>controllers/etudiantController.js\<close>\<close>

text \<open>
  Each handler is the function from its request inputs and the store to the response it
  sends; the handlers that write also return the store's next state. A \<open>try\<close> block is
  the case analysis on the awaited results, its \<open>catch\<close> the \<open>Inl\<close> branches. The
  \<open>console.log\<close> calls are left out.
\<close>

subsection \<open>\<open>createEtudiant\<close>\<close>

definition create_catch :: "js_error \<Rightarrow> response" where
  "create_catch err =
     (if err_code err = NumCode 11000
      then (json 400 False)\<lparr>message := Some msg_email_existe\<rparr>
      else (json 400 False)\<lparr>message := Some msg_donnees_invalides,
                             error := Some (err_message err)\<rparr>)"

definition createEtudiant :: "'db model \<Rightarrow> body \<Rightarrow> 'db \<Rightarrow> response \<times> 'db" where
  "createEtudiant M b db =
     (case m_findOne M [FieldIs ''nom'' (Equals (get_prop b ''nom'')),
                        FieldIs ''prenom'' (Equals (get_prop b ''prenom''))] db of
        Inl err \<Rightarrow> (create_catch err, db)
      | Inr (Some existeDeja) \<Rightarrow> ((json 400 False)\<lparr>message := Some msg_existe_deja\<rparr>, db)
      | Inr None \<Rightarrow>
          (case m_create M b db of
             (Inl err, db') \<Rightarrow> (create_catch err, db')
           | (Inr e, db') \<Rightarrow>
               ((json 201 True)\<lparr>message := Some msg_cree, data := Some (Doc e)\<rparr>, db')))"

subsection \<open>\<open>getEtudiantById\<close>\<close>

definition getEtudiantById :: "'db model \<Rightarrow> string \<Rightarrow> 'db \<Rightarrow> response" where
  "getEtudiantById M ident db =
     (case m_findById M ident db of
        Inl err \<Rightarrow> erreur_serveur err
      | Inr None \<Rightarrow> non_trouve
      | Inr (Some e) \<Rightarrow> (json 200 True)\<lparr>data := Some (Doc e)\<rparr>)"

subsection \<open>\<open>deleteEtudiant\<close>\<close>

definition deleteEtudiant :: "'db model \<Rightarrow> string \<Rightarrow> 'db \<Rightarrow> response \<times> 'db" where
  "deleteEtudiant M ident db =
     (case m_findByIdAndUpdate M ident [(''actif'', JBool False)] \<lparr>opt_new = True\<rparr> db of
        (Inl err, db') \<Rightarrow> (erreur_serveur err, db')
      | (Inr None, db') \<Rightarrow> (non_trouve, db')
      | (Inr (Some e), db') \<Rightarrow>
          ((json 200 True)\<lparr>message := Some msg_desactive, data := Some (Doc e)\<rparr>, db'))"

subsection \<open>\<open>getEtudiantsByFiliere\<close>\<close>

definition getEtudiantsByFiliere :: "'db model \<Rightarrow> string \<Rightarrow> 'db \<Rightarrow> response" where
  "getEtudiantsByFiliere M fil db =
     (case m_find M [FieldIs ''filiere'' (Equals (JStr fil))] [] db of
        Inl err \<Rightarrow> erreur_serveur err
      | Inr etudiants \<Rightarrow>
          (json 200 True)\<lparr>count := Some (length etudiants), r_filiere := Some fil,
                          data := Some (Docs etudiants)\<rparr>)"

subsection \<open>\<open>searchEtudiants\<close>\<close>

definition search_filter :: "regexp \<Rightarrow> filter" where
  "search_filter regex =
     [FieldIs ''actif'' (Equals (JBool True)),
      AnyOf [[(''nom'', Matches regex)], [(''prenom'', Matches regex)]]]"

definition searchEtudiants ::
  "syntax_check \<Rightarrow> 'db model \<Rightarrow> string option \<Rightarrow> 'db \<Rightarrow> response" where
  "searchEtudiants chk M q db =
     (case q of
        None \<Rightarrow> (json 400 False)\<lparr>message := Some msg_q_obligatoire\<rparr>
      | Some pattern \<Rightarrow>
          if pattern = [] then (json 400 False)\<lparr>message := Some msg_q_obligatoire\<rparr>
          else
            (case new_RegExp chk pattern ''i'' of
               Inl err \<Rightarrow> erreur_serveur err
             | Inr regex \<Rightarrow>
                 (case m_find M (search_filter regex) [] db of
                    Inl err \<Rightarrow> erreur_serveur err
                  | Inr etudiants \<Rightarrow>
                      (json 200 True)\<lparr>count := Some (length etudiants), r_query := q,
                                      data := Some (Docs etudiants)\<rparr>)))"

subsection \<open>\<open>advancedSearch\<close>\<close>

text \<open>
  The filter is built by assignments to fresh properties of \<open>{ actif: true }\<close>, so each
  one appends a property. \<open>filter.annee\<close> starts as \<open>{}\<close> and receives \<open>$gte\<close> and then
  \<open>$lte\<close>, each only for its own parameter. The constructor of the regular expression
  may throw, and then no filter is built.
\<close>

definition annee_ops :: "string option \<Rightarrow> string option \<Rightarrow> (cmp \<times> jsnum) list" where
  "annee_ops anneeMin anneeMax =
     (case anneeMin of None \<Rightarrow> [] | Some a \<Rightarrow> if a = [] then [] else [(Gte, parseInt a)]) @
     (case anneeMax of None \<Rightarrow> [] | Some a \<Rightarrow> if a = [] then [] else [(Lte, parseInt a)])"

definition advancedSearch_filter :: "syntax_check \<Rightarrow> adv_query \<Rightarrow> js_error + filter" where
  "advancedSearch_filter chk q =
     (let filter0 = [FieldIs ''actif'' (Equals (JBool True))];
          filter1 =
            (case q_nom q of
               None \<Rightarrow> Inr filter0
             | Some n \<Rightarrow>
                 if n = [] then Inr filter0
                 else (case new_RegExp chk n ''i'' of
                         Inl err \<Rightarrow> Inl err
                       | Inr regex \<Rightarrow> Inr (filter0 @ [FieldIs ''nom'' (Matches regex)])))
      in case filter1 of
           Inl err \<Rightarrow> Inl err
         | Inr f1 \<Rightarrow>
             (let f2 = (case q_filiere q of
                          None \<Rightarrow> f1
                        | Some fil \<Rightarrow>
                            if fil = [] then f1 else f1 @ [FieldIs ''filiere'' (Equals (JStr fil))]);
                  f3 = (if truthy (q_anneeMin q) \<or> truthy (q_anneeMax q)
                        then f2 @ [FieldIs ''annee'' (Ops (annee_ops (q_anneeMin q) (q_anneeMax q)))]
                        else f2);
                  f4 = (case q_moyenneMin q of
                          None \<Rightarrow> f3
                        | Some m \<Rightarrow>
                            if m = [] then f3
                            else f3 @ [FieldIs ''moyenne'' (Ops [(Gte, parseFloat m)])])
              in Inr f4))"

definition advancedSearch :: "syntax_check \<Rightarrow> 'db model \<Rightarrow> adv_query \<Rightarrow> 'db \<Rightarrow> response" where
  "advancedSearch chk M q db =
     (case advancedSearch_filter chk q of
        Inl err \<Rightarrow> erreur_serveur err
      | Inr fltr \<Rightarrow>
          (case m_find M fltr [] db of
             Inl err \<Rightarrow> erreur_serveur err
           | Inr etudiants \<Rightarrow>
               (json 200 True)\<lparr>count := Some (length etudiants), r_filters := Some q,
                               data := Some (Docs etudiants)\<rparr>))"

subsection \<open>\<open>getEtudiantsSorted\<close>\<close>

definition sortOptions :: "string option \<Rightarrow> string option \<Rightarrow> sort_options" where
  "sortOptions sortBy ord =
     (case sortBy of
        None \<Rightarrow> []
      | Some k \<Rightarrow> if k = [] then [] else [(k, if ord = Some ''desc'' then - 1 else 1)])"

definition getEtudiantsSorted ::
  "'db model \<Rightarrow> string option \<Rightarrow> string option \<Rightarrow> 'db \<Rightarrow> response" where
  "getEtudiantsSorted M sortBy ord db =
     (case m_find M [FieldIs ''actif'' (Equals (JBool True))] (sortOptions sortBy ord) db of
        Inl err \<Rightarrow> erreur_serveur err
      | Inr etudiants \<Rightarrow>
          (json 200 True)\<lparr>count := Some (length etudiants), r_sortBy := sortBy, r_order := ord,
                          data := Some (Docs etudiants)\<rparr>)"

section \<open>The store\<close>

text \<open>
  Modelled from the spec: the model object \<open>Etudiant\<close> (\<open>models/Etudiant\<close> and the
  object mapper and database behind it) is not among the sources. The definitions of
  this section follow sections 3 and 6 of the specification: a collection of student
  documents with exact-match lookup by field set, lookup by identifier, insert with
  schema validation, find by filter (equality, regular expression, numeric range,
  logical or across fields), update by identifier returning the post-update document,
  and a duplicate-unique-key error code, 11000 in the controller, apart from
  validation errors. The store is the list of its documents in insertion order.

  Three things the specification leaves open are fixed here. An identifier is
  well-formed when it is 24 hexadecimal digits, the shape of the controller's own
  example \<open>507f1f77bcf86cd799439011\<close>; a lookup by a malformed identifier is rejected
  with a cast error. A \<open>NaN\<close> bound in a numeric range is rejected with a cast error.
  Values are compared as they are, with no conversion between types.
  How the store matches a regular expression against a string (\<open>rxm\<close>) and how it
  validates a body against the schema (\<open>validate\<close>) are parameters of the store.
\<close>

definition valid_oid :: "string \<Rightarrow> bool" where
  "valid_oid s = (length s = 24 \<and> list_all (is_digit 16) s)"

definition cast_error :: "string \<Rightarrow> string \<Rightarrow> string \<Rightarrow> js_error" where
  "cast_error ty v path =
     \<lparr>err_name = ''CastError'', err_code = NoCode,
      err_message = ''Cast to '' @ ty @ '' failed for value '' @ v @ '' at path '' @ path\<rparr>"

definition field_val :: "string \<Rightarrow> etudiant \<Rightarrow> jsval" where
  "field_val k e =
     (if k = ''_id'' then JStr (doc_id e)
      else if k = ''nom'' then JStr (nom e)
      else if k = ''prenom'' then JStr (prenom e)
      else if k = ''email'' then JStr (email e)
      else if k = ''filiere'' then JStr (filiere e)
      else if k = ''annee'' then JNum (annee e)
      else if k = ''moyenne'' then JNum (moyenne e)
      else if k = ''actif'' then JBool (actif e)
      else JUndefined)"

text \<open>The order of numbers in a sort: \<open>NaN\<close> first, then the numbers in their order.\<close>

fun num_rank :: "jsnum \<Rightarrow> nat" where
  "num_rank NaN = 0"
| "num_rank NegInf = 1"
| "num_rank (Fin r) = 2"
| "num_rank PosInf = 3"

fun num_ord :: "jsnum \<Rightarrow> jsnum \<Rightarrow> bool" where
  "num_ord (Fin a) (Fin b) = (a \<le> b)"
| "num_ord a b = (num_rank a \<le> num_rank b)"

text \<open>The comparison of a range condition: never true of \<open>NaN\<close>.\<close>

definition num_le :: "jsnum \<Rightarrow> jsnum \<Rightarrow> bool" where
  "num_le a b = (a \<noteq> NaN \<and> b \<noteq> NaN \<and> num_ord a b)"

fun op_holds :: "jsnum \<Rightarrow> cmp \<times> jsnum \<Rightarrow> bool" where
  "op_holds n (Gte, b) = num_le b n"
| "op_holds n (Lte, b) = num_le n b"

fun cond_holds :: "(regexp \<Rightarrow> string \<Rightarrow> bool) \<Rightarrow> cond \<Rightarrow> jsval \<Rightarrow> bool" where
  "cond_holds rxm (Equals w) v = (v = w)"
| "cond_holds rxm (Matches r) v = (case v of JStr s \<Rightarrow> rxm r s | _ \<Rightarrow> False)"
| "cond_holds rxm (Ops ops) v = (case v of JNum n \<Rightarrow> list_all (op_holds n) ops | _ \<Rightarrow> False)"

definition field_holds :: "(regexp \<Rightarrow> string \<Rightarrow> bool) \<Rightarrow> etudiant \<Rightarrow> string \<times> cond \<Rightarrow> bool" where
  "field_holds rxm e kc = cond_holds rxm (snd kc) (field_val (fst kc) e)"

fun clause_holds :: "(regexp \<Rightarrow> string \<Rightarrow> bool) \<Rightarrow> etudiant \<Rightarrow> clause \<Rightarrow> bool" where
  "clause_holds rxm e (FieldIs k c) = field_holds rxm e (k, c)"
| "clause_holds rxm e (AnyOf alts) = list_ex (list_all (field_holds rxm e)) alts"

definition matches :: "(regexp \<Rightarrow> string \<Rightarrow> bool) \<Rightarrow> filter \<Rightarrow> etudiant \<Rightarrow> bool" where
  "matches rxm f e = list_all (clause_holds rxm e) f"

fun clause_conds :: "clause \<Rightarrow> (string \<times> cond) list" where
  "clause_conds (FieldIs k c) = [(k, c)]"
| "clause_conds (AnyOf alts) = concat alts"

fun nan_bound :: "string \<times> cond \<Rightarrow> bool" where
  "nan_bound (k, Ops ops) = list_ex (\<lambda>ob. snd ob = NaN) ops"
| "nan_bound (k, c) = False"

definition filter_cast_error :: "filter \<Rightarrow> js_error option" where
  "filter_cast_error f =
     (case List.find nan_bound (concat (map clause_conds f)) of
        None \<Rightarrow> None
      | Some kc \<Rightarrow> Some (cast_error ''Number'' ''NaN'' (fst kc)))"

text \<open>The order of values in a sort: by type first, then by value within the type.\<close>

fun type_rank :: "jsval \<Rightarrow> nat" where
  "type_rank JUndefined = 0"
| "type_rank JNull = 0"
| "type_rank (JNum n) = 1"
| "type_rank (JStr s) = 2"
| "type_rank (JBool b) = 3"

fun jsval_le :: "jsval \<Rightarrow> jsval \<Rightarrow> bool" where
  "jsval_le (JNum a) (JNum b) = num_ord a b"
| "jsval_le (JStr a) (JStr b) = (a \<le> b)"
| "jsval_le (JBool a) (JBool b) = (a \<le> b)"
| "jsval_le a b = (type_rank a \<le> type_rank b)"

text \<open>
  \<open>sort_le (k, d)\<close> is the order of documents under the sort criterion \<open>{ k: d }\<close>:
  descending for a negative \<open>d\<close>, ascending otherwise.
\<close>

definition sort_le :: "string \<times> int \<Rightarrow> etudiant \<Rightarrow> etudiant \<Rightarrow> bool" where
  "sort_le kd a b =
     (if snd kd < 0 then jsval_le (field_val (fst kd) b) (field_val (fst kd) a)
      else jsval_le (field_val (fst kd) a) (field_val (fst kd) b))"

fun insert_by :: "('a \<Rightarrow> 'a \<Rightarrow> bool) \<Rightarrow> 'a \<Rightarrow> 'a list \<Rightarrow> 'a list" where
  "insert_by le x [] = [x]"
| "insert_by le x (y # ys) = (if le x y then x # y # ys else y # insert_by le x ys)"

definition sort_by :: "('a \<Rightarrow> 'a \<Rightarrow> bool) \<Rightarrow> 'a list \<Rightarrow> 'a list" where
  "sort_by le xs = foldr (insert_by le) xs []"

text \<open>
  Sorting by several criteria sorts by the last one first, each pass keeping the order
  of the documents it does not tell apart. No criterion leaves the store's order.
\<close>

definition apply_sort :: "sort_options \<Rightarrow> etudiant list \<Rightarrow> etudiant list" where
  "apply_sort so es = foldr (\<lambda>kd acc. sort_by (sort_le kd) acc) so es"

text \<open>
  Modelled from the spec: \<open>Etudiant.find(filter).sort(options)\<close>, the find by filter of
  section 6: the documents that satisfy the filter, in the store's order or sorted.
\<close>

definition mem_find ::
  "(regexp \<Rightarrow> string \<Rightarrow> bool) \<Rightarrow> filter \<Rightarrow> sort_options \<Rightarrow> etudiant list
     \<Rightarrow> js_error + etudiant list" where
  "mem_find rxm f so db =
     (case filter_cast_error f of
        Some err \<Rightarrow> Inl err
      | None \<Rightarrow> Inr (apply_sort so (filter (matches rxm f) db)))"

text \<open>
  Modelled from the spec: \<open>Etudiant.findOne(filter)\<close>, the exact-match lookup by field
  set of section 6: the first document that satisfies the filter, if any.
\<close>

definition mem_findOne ::
  "(regexp \<Rightarrow> string \<Rightarrow> bool) \<Rightarrow> filter \<Rightarrow> etudiant list \<Rightarrow> js_error + etudiant option" where
  "mem_findOne rxm f db =
     (case filter_cast_error f of
        Some err \<Rightarrow> Inl err
      | None \<Rightarrow> Inr (List.find (matches rxm f) db))"

text \<open>
  Modelled from the spec: \<open>Etudiant.findById(id)\<close>, the lookup by identifier of
  section 6, whatever the document's \<open>actif\<close>.
\<close>

definition mem_findById :: "string \<Rightarrow> etudiant list \<Rightarrow> js_error + etudiant option" where
  "mem_findById ident db =
     (if valid_oid ident then Inr (List.find (\<lambda>e. doc_id e = ident) db)
      else Inl (cast_error ''ObjectId'' ident ''_id''))"

text \<open>
  Modelled from the spec: \<open>Etudiant.findByIdAndUpdate(id, update, options)\<close>, the
  update by identifier of section 6. An update sets the schema's fields it names, each
  to a value of the field's type; a value of another type is rejected, a property the
  schema does not have is dropped. With the option \<open>new\<close> the call returns the
  post-update document.
\<close>

definition set_field :: "string \<times> jsval \<Rightarrow> etudiant \<Rightarrow> js_error + etudiant" where
  "set_field kv e =
     (let k = fst kv; v = snd kv in
      if k \<in> {''nom'', ''prenom'', ''email'', ''filiere''} then
        (case v of
           JStr s \<Rightarrow>
             Inr (if k = ''nom'' then e\<lparr>nom := s\<rparr>
                  else if k = ''prenom'' then e\<lparr>prenom := s\<rparr>
                  else if k = ''email'' then e\<lparr>email := s\<rparr>
                  else e\<lparr>filiere := s\<rparr>)
         | _ \<Rightarrow> Inl (cast_error ''String'' [] k))
      else if k \<in> {''annee'', ''moyenne''} then
        (case v of
           JNum n \<Rightarrow>
             if n = NaN then Inl (cast_error ''Number'' ''NaN'' k)
             else Inr (if k = ''annee'' then e\<lparr>annee := n\<rparr> else e\<lparr>moyenne := n\<rparr>)
         | _ \<Rightarrow> Inl (cast_error ''Number'' [] k))
      else if k = ''actif'' then
        (case v of
           JBool b \<Rightarrow> Inr (e\<lparr>actif := b\<rparr>)
         | _ \<Rightarrow> Inl (cast_error ''Boolean'' [] k))
      else Inr e)"

fun apply_update :: "body \<Rightarrow> etudiant \<Rightarrow> js_error + etudiant" where
  "apply_update [] e = Inr e"
| "apply_update (kv # kvs) e =
     (case set_field kv e of Inl err \<Rightarrow> Inl err | Inr e' \<Rightarrow> apply_update kvs e')"

fun replace_doc :: "string \<Rightarrow> etudiant \<Rightarrow> etudiant list \<Rightarrow> etudiant list" where
  "replace_doc ident e' [] = []"
| "replace_doc ident e' (e # es) =
     (if doc_id e = ident then e' # es else e # replace_doc ident e' es)"

definition mem_findByIdAndUpdate ::
  "string \<Rightarrow> body \<Rightarrow> update_options \<Rightarrow> etudiant list
     \<Rightarrow> (js_error + etudiant option) \<times> etudiant list" where
  "mem_findByIdAndUpdate ident upd opts db =
     (if \<not> valid_oid ident then (Inl (cast_error ''ObjectId'' ident ''_id''), db)
      else
        (case List.find (\<lambda>e. doc_id e = ident) db of
           None \<Rightarrow> (Inr None, db)
         | Some e \<Rightarrow>
             (case apply_update upd e of
                Inl err \<Rightarrow> (Inl err, db)
              | Inr e' \<Rightarrow>
                  (Inr (Some (if opt_new opts then e' else e)), replace_doc ident e' db))))"

text \<open>The identifier the store gives its \<open>n\<close>-th document: \<open>n\<close> as 24 hexadecimal digits.\<close>

definition hex_char :: "nat \<Rightarrow> char" where
  "hex_char d = (if d < 10 then char_of (48 + d) else char_of (87 + d))"

fun hex_digits :: "nat \<Rightarrow> nat \<Rightarrow> string" where
  "hex_digits 0 n = []"
| "hex_digits (Suc k) n = hex_digits k (n div 16) @ [hex_char (n mod 16)]"

definition new_oid :: "nat \<Rightarrow> string" where
  "new_oid n = hex_digits 24 n"

text \<open>
  Modelled from the spec: \<open>Etudiant.create(body)\<close>, the insert with schema validation
  of section 6. The schema validation comes first (\<open>validate\<close> gives the validation
  message or the document to store), then the uniqueness of \<open>email\<close>, whose violation
  carries the code 11000, then the document is stored under a new identifier.
\<close>

definition mem_create ::
  "(body \<Rightarrow> string + etudiant) \<Rightarrow> body \<Rightarrow> etudiant list
     \<Rightarrow> (js_error + etudiant) \<times> etudiant list" where
  "mem_create validate b db =
     (case validate b of
        Inl msg \<Rightarrow>
          (Inl \<lparr>err_name = ''ValidationError'', err_code = NoCode, err_message = msg\<rparr>, db)
      | Inr e \<Rightarrow>
          if list_ex (\<lambda>d. email d = email e) db
          then (Inl \<lparr>err_name = ''MongoServerError'', err_code = NumCode 11000,
                     err_message = ''E11000 duplicate key error: email '' @ email e\<rparr>, db)
          else (let e' = e\<lparr>doc_id := new_oid (length db)\<rparr> in (Inr e', db @ [e'])))"

text \<open>Modelled from the spec: the model object \<open>Etudiant\<close> over this store.\<close>

definition mem :: "(regexp \<Rightarrow> string \<Rightarrow> bool) \<Rightarrow> (body \<Rightarrow> string + etudiant) \<Rightarrow> etudiant list model" where
  "mem rxm validate =
     \<lparr>m_findOne = mem_findOne rxm,
      m_create = mem_create validate,
      m_findById = mem_findById,
      m_findByIdAndUpdate = mem_findByIdAndUpdate,
      m_find = mem_find rxm\<rparr>"

subsection \<open>An instance of the schema validation\<close>

text \<open>
  Modelled from the spec: the schema of \<open>models/Etudiant\<close> is not among the sources.
  This instance takes the field types of section 3 of the specification: \<open>nom\<close>,
  \<open>prenom\<close>, \<open>email\<close> and \<open>filiere\<close> are strings, \<open>annee\<close> and \<open>moyenne\<close> are numbers,
  \<open>actif\<close> is a boolean that defaults to true. It asks for every field but \<open>actif\<close>.
\<close>

definition str_field :: "body \<Rightarrow> string \<Rightarrow> string option" where
  "str_field b k = (case get_prop b k of JStr s \<Rightarrow> Some s | _ \<Rightarrow> None)"

definition num_field :: "body \<Rightarrow> string \<Rightarrow> jsnum option" where
  "num_field b k = (case get_prop b k of JNum n \<Rightarrow> (if n = NaN then None else Some n) | _ \<Rightarrow> None)"

definition bool_field :: "body \<Rightarrow> string \<Rightarrow> bool option" where
  "bool_field b k =
     (case get_prop b k of JBool v \<Rightarrow> Some v | JUndefined \<Rightarrow> Some True | _ \<Rightarrow> None)"

definition validation_failed :: "string \<Rightarrow> string" where
  "validation_failed k = ''Etudiant validation failed: '' @ k"

definition spec_schema :: "body \<Rightarrow> string + etudiant" where
  "spec_schema b =
     (case str_field b ''nom'' of None \<Rightarrow> Inl (validation_failed ''nom'') | Some n \<Rightarrow>
     (case str_field b ''prenom'' of None \<Rightarrow> Inl (validation_failed ''prenom'') | Some p \<Rightarrow>
     (case str_field b ''email'' of None \<Rightarrow> Inl (validation_failed ''email'') | Some m \<Rightarrow>
     (case str_field b ''filiere'' of None \<Rightarrow> Inl (validation_failed ''filiere'') | Some f \<Rightarrow>
     (case num_field b ''annee'' of None \<Rightarrow> Inl (validation_failed ''annee'') | Some a \<Rightarrow>
     (case num_field b ''moyenne'' of None \<Rightarrow> Inl (validation_failed ''moyenne'') | Some y \<Rightarrow>
     (case bool_field b ''actif'' of None \<Rightarrow> Inl (validation_failed ''actif'') | Some v \<Rightarrow>
        Inr \<lparr>doc_id = [], nom = n, prenom = p, email = m, filiere = f, annee = a,
             moyenne = y, actif = v\<rparr>)))))))"

subsection \<open>An instance of the regular expressions\<close>

text \<open>
  A fragment of the regular-expression language: a pattern made of literal characters,
  of \<open>.\<close> (any character but a line terminator) and of syntax characters escaped with
  a backslash. On such a pattern \<open>plain_check\<close> accepts and \<open>plain_test\<close> is the search
  for a match anywhere in the subject, characters compared through \<open>canonicalize\<close>
  under the flag \<open>i\<close>. A pattern that begins with a quantifier is a syntax error
  (nothing to repeat). Every other pattern is outside the fragment: the instance
  rejects it under the name \<open>Unmodelled\<close> and is not a model of the language there.
\<close>

definition syntax_char :: "char \<Rightarrow> bool" where
  "syntax_char c =
     (of_char c \<in> {94, 36, 92, 46, 42, 43, 63, 40, 41, 91, 93, 123, 125, 124 :: nat})"

datatype atom = Lit char | AnyChar

fun parse_atoms :: "string \<Rightarrow> atom list option" where
  "parse_atoms [] = Some []"
| "parse_atoms [c] =
     (if c = CHR ''.'' then Some [AnyChar]
      else if syntax_char c then None
      else Some [Lit c])"
| "parse_atoms (c # d # ds) =
     (if c = CHR 0x5C then
        (if syntax_char d then map_option ((#) (Lit d)) (parse_atoms ds) else None)
      else if c = CHR ''.'' then map_option ((#) AnyChar) (parse_atoms (d # ds))
      else if syntax_char c then None
      else map_option ((#) (Lit c)) (parse_atoms (d # ds)))"

definition canonicalize :: "char \<Rightarrow> char" where
  "canonicalize c =
     (let n = (of_char c :: nat) in
      if (97 \<le> n \<and> n \<le> 122) \<or> (224 \<le> n \<and> n \<le> 254 \<and> n \<noteq> 247) then char_of (n - 32)
      else c)"

fun atom_matches :: "bool \<Rightarrow> atom \<Rightarrow> char \<Rightarrow> bool" where
  "atom_matches ic (Lit l) c = (if ic then canonicalize l = canonicalize c else l = c)"
| "atom_matches ic AnyChar c = (c \<noteq> CHR 0x0A \<and> c \<noteq> CHR 0x0D)"

fun match_here :: "bool \<Rightarrow> atom list \<Rightarrow> string \<Rightarrow> bool" where
  "match_here ic [] s = True"
| "match_here ic (a # as) [] = False"
| "match_here ic (a # as) (c # cs) = (atom_matches ic a c \<and> match_here ic as cs)"

fun match_anywhere :: "bool \<Rightarrow> atom list \<Rightarrow> string \<Rightarrow> bool" where
  "match_anywhere ic as [] = match_here ic as []"
| "match_anywhere ic as (c # cs) = (match_here ic as (c # cs) \<or> match_anywhere ic as cs)"

definition plain_test :: "regexp \<Rightarrow> string \<Rightarrow> bool" where
  "plain_test r s =
     (case parse_atoms (source r) of
        None \<Rightarrow> False
      | Some as \<Rightarrow> match_anywhere (CHR ''i'' \<in> set (flags r)) as s)"

definition plain_check :: syntax_check where
  "plain_check p =
     (if p \<noteq> [] \<and> hd p \<in> {CHR ''*'', CHR ''+'', CHR ''?''}
      then Some \<lparr>err_name = ''SyntaxError'', err_code = NoCode,
                 err_message = ''Invalid regular expression: /'' @ p @ ''/i: Nothing to repeat''\<rparr>
      else if parse_atoms p = None
      then Some \<lparr>err_name = ''Unmodelled'', err_code = NoCode,
                 err_message = ''pattern outside the fragment''\<rparr>
      else None)"

section \<open>The specification's notions\<close>

text \<open>
  The specification's search: \<open>q\<close> is a case-insensitive substring of a string when the
  case-folded \<open>q\<close> is a run of consecutive characters of the case-folded string.
\<close>

definition ci_substring :: "string \<Rightarrow> string \<Rightarrow> bool" where
  "ci_substring q s = sublist (map canonicalize q) (map canonicalize s)"

definition spec_search :: "string \<Rightarrow> etudiant list \<Rightarrow> etudiant list" where
  "spec_search q db =
     filter (\<lambda>e. actif e \<and> (ci_substring q (nom e) \<or> ci_substring q (prenom e))) db"

text \<open>
  The specification's filter of the advanced search: the condition \<open>actif = true\<close> and
  one condition for each parameter that is present and non-empty, in the order \<open>nom\<close>
  (a regular expression under the flag \<open>i\<close>), \<open>filiere\<close> (equality), \<open>annee\<close> (the
  bounds that are present, \<open>$gte\<close> from \<open>anneeMin\<close> and \<open>$lte\<close> from \<open>anneeMax\<close>) and
  \<open>moyenne\<close> (\<open>$gte\<close> from \<open>moyenneMin\<close>). \<open>str_of\<close> reads a parameter as a string,
  the empty one when it is absent.
\<close>

definition str_of :: "string option \<Rightarrow> string" where
  "str_of p = (case p of None \<Rightarrow> [] | Some s \<Rightarrow> s)"

definition spec_filter :: "adv_query \<Rightarrow> filter" where
  "spec_filter q =
     [FieldIs ''actif'' (Equals (JBool True))]
     @ (if truthy (q_nom q) then [FieldIs ''nom'' (Matches (RegExp (str_of (q_nom q)) ''i''))] else [])
     @ (if truthy (q_filiere q) then [FieldIs ''filiere'' (Equals (JStr (str_of (q_filiere q))))] else [])
     @ (if truthy (q_anneeMin q) \<or> truthy (q_anneeMax q)
        then [FieldIs ''annee''
                (Ops ((if truthy (q_anneeMin q)
                       then [(Gte, parseInt (str_of (q_anneeMin q)))] else [])
                    @ (if truthy (q_anneeMax q)
                       then [(Lte, parseInt (str_of (q_anneeMax q)))] else [])))]
        else [])
     @ (if truthy (q_moyenneMin q)
        then [FieldIs ''moyenne'' (Ops [(Gte, parseFloat (str_of (q_moyenneMin q)))])] else [])"

text \<open>Reading a property of a filter object: \<open>filter[k]\<close>.\<close>

fun filter_get :: "filter \<Rightarrow> string \<Rightarrow> cond option" where
  "filter_get [] k = None"
| "filter_get (FieldIs k' c # f) k = (if k' = k then Some c else filter_get f k)"
| "filter_get (AnyOf alts # f) k = filter_get f k"

section \<open>Sample data\<close>

text \<open>The two students of the scenario in section 8 of the specification, and a store holding them.\<close>

definition dupont :: etudiant where
  "dupont = \<lparr>doc_id = new_oid 0, nom = ''Dupont'', prenom = ''Jean'', email = ''jean@x.com'',
             filiere = ''CS'', annee = Fin 2021, moyenne = Fin (29 / 2), actif = True\<rparr>"

definition martin :: etudiant where
  "martin = \<lparr>doc_id = new_oid 1, nom = ''Martin'', prenom = ''Alice'', email = ''alice@x.com'',
             filiere = ''Math'', annee = Fin 2022, moyenne = Fin 16, actif = True\<rparr>"

definition store0 :: "etudiant list model" where
  "store0 = mem plain_test spec_schema"

definition body_of :: "string \<Rightarrow> string \<Rightarrow> string \<Rightarrow> body" where
  "body_of n p mail =
     [(''nom'', JStr n), (''prenom'', JStr p), (''email'', JStr mail),
      (''filiere'', JStr ''CS''), (''annee'', JNum (Fin 2023)), (''moyenne'', JNum (Fin 12))]"

text \<open>A query of the advanced search with only \<open>nom\<close> and \<open>anneeMin\<close>.\<close>

definition q_only :: "string option \<Rightarrow> string option \<Rightarrow> adv_query" where
  "q_only n amin =
     \<lparr>q_nom = n, q_filiere = None, q_anneeMin = amin, q_anneeMax = None, q_moyenneMin = None\<rparr>"

section \<open>Basic facts\<close>

lemma truthy_simps [simp]:
  "truthy None = False" "truthy (Some s) = (s \<noteq> [])"
  by (simp_all add: truthy_def)

lemma json_sel [simp]:
  "status (json st ok) = st" "success (json st ok) = ok" "message (json st ok) = None"
  "error (json st ok) = None" "count (json st ok) = None" "data (json st ok) = None"
  by (simp_all add: json_def)

lemma erreur_serveur_sel [simp]:
  "status (erreur_serveur err) = 500" "success (erreur_serveur err) = False"
  "message (erreur_serveur err) = Some msg_erreur_serveur"
  "error (erreur_serveur err) = Some (err_message err)"
  "data (erreur_serveur err) = None"
  by (simp_all add: erreur_serveur_def)

lemma mem_sel [simp]:
  "m_findOne (mem rxm validate) = mem_findOne rxm"
  "m_create (mem rxm validate) = mem_create validate"
  "m_findById (mem rxm validate) = mem_findById"
  "m_findByIdAndUpdate (mem rxm validate) = mem_findByIdAndUpdate"
  "m_find (mem rxm validate) = mem_find rxm"
  by (simp_all add: mem_def)

lemma field_val_simps [simp]:
  "field_val ''_id'' e = JStr (doc_id e)"
  "field_val ''nom'' e = JStr (nom e)"
  "field_val ''prenom'' e = JStr (prenom e)"
  "field_val ''email'' e = JStr (email e)"
  "field_val ''filiere'' e = JStr (filiere e)"
  "field_val ''annee'' e = JNum (annee e)"
  "field_val ''moyenne'' e = JNum (moyenne e)"
  "field_val ''actif'' e = JBool (actif e)"
  by (simp_all add: field_val_def)

lemma valid_oid_abc: "\<not> valid_oid ''abc''"
  by (simp add: valid_oid_def)

section \<open>\<open>searchEtudiants\<close> without \<open>q\<close>\<close>

text \<open>
  C9. When \<open>q\<close> is absent or empty, \<open>searchEtudiants\<close> answers 400 with the
  required-parameter message, and the answer is the same whatever the pattern check, the
  model object and the store are: neither is consulted on this path.
\<close>

theorem search_without_q:
  assumes "q = None \<or> q = Some []"
  shows "searchEtudiants chk M q db = (json 400 False)\<lparr>message := Some msg_q_obligatoire\<rparr>"
  using assms by (auto simp: searchEtudiants_def)

theorem search_without_q_witness:
  "searchEtudiants plain_check store0 (Some []) [dupont, martin]
     = (json 400 False)\<lparr>message := Some msg_q_obligatoire\<rparr>"
  by (rule search_without_q) simp

section \<open>\<open>getEtudiantById\<close> when the lookup throws\<close>

text \<open>
  C1 as stated fails: the identifier \<open>abc\<close> is malformed for the store, the lookup
  throws a cast error, and the handler's \<open>catch\<close> answers 500, not 404.
\<close>

theorem getById_malformed_counterexample:
  "m_findById store0 ''abc'' [dupont, martin] = Inl (cast_error ''ObjectId'' ''abc'' ''_id'')
   \<and> status (getEtudiantById store0 ''abc'' [dupont, martin]) = 500
   \<and> status (getEtudiantById store0 ''abc'' [dupont, martin]) \<noteq> 404"
  by (simp add: getEtudiantById_def store0_def mem_findById_def valid_oid_abc)

text \<open>
  C1, amended. Whenever the lookup throws, as it does on a malformed identifier,
  \<open>getEtudiantById\<close> answers 500 with the message \<open>Erreur serveur\<close> and the thrown
  error's message in \<open>error\<close>.
\<close>

theorem getById_lookup_throws:
  assumes "m_findById M ident db = Inl err"
  shows "getEtudiantById M ident db
           = (json 500 False)\<lparr>message := Some msg_erreur_serveur,
                                error := Some (err_message err)\<rparr>"
  using assms by (simp add: getEtudiantById_def erreur_serveur_def)

theorem getById_lookup_throws_witness:
  "getEtudiantById store0 ''abc'' [dupont, martin]
     = (json 500 False)\<lparr>message := Some msg_erreur_serveur,
          error := Some (err_message (cast_error ''ObjectId'' ''abc'' ''_id''))\<rparr>"
  by (rule getById_lookup_throws) (simp add: store0_def mem_findById_def valid_oid_abc)

section \<open>\<open>createEtudiant\<close>\<close>

subsection \<open>The insert fails\<close>

text \<open>
  C4. When no student has the body's name and first name and the insert fails,
  \<open>createEtudiant\<close> answers 400: with the duplicate-email message and no \<open>error\<close>
  property when the error's code is the number 11000, and otherwise with the generic
  message and the error's own message in \<open>error\<close>.
\<close>

theorem create_insert_fails:
  assumes "m_findOne M [FieldIs ''nom'' (Equals (get_prop b ''nom'')),
                        FieldIs ''prenom'' (Equals (get_prop b ''prenom''))] db = Inr None"
      and "m_create M b db = (Inl err, db')"
  shows "fst (createEtudiant M b db) =
           (if err_code err = NumCode 11000
            then \<lparr>status = 400, success = False, message = Some msg_email_existe,
                  error = None, count = None, data = None, r_filiere = None,
                  r_query = None, r_filters = None, r_sortBy = None, r_order = None\<rparr>
            else \<lparr>status = 400, success = False, message = Some msg_donnees_invalides,
                  error = Some (err_message err), count = None, data = None,
                  r_filiere = None, r_query = None, r_filters = None, r_sortBy = None,
                  r_order = None\<rparr>)"
  using assms by (simp add: createEtudiant_def create_catch_def json_def)

lemma jeanne_not_found:
  "m_findOne store0
     [FieldIs ''nom'' (Equals (get_prop (body_of ''Dupont'' ''Jeanne'' ''jean@x.com'') ''nom'')),
      FieldIs ''prenom'' (Equals (get_prop (body_of ''Dupont'' ''Jeanne'' ''jean@x.com'') ''prenom''))]
     [dupont, martin] = Inr None"
  by code_simp

lemma jeanne_duplicate_email:
  "m_create store0 (body_of ''Dupont'' ''Jeanne'' ''jean@x.com'') [dupont, martin]
     = (Inl \<lparr>err_name = ''MongoServerError'', err_code = NumCode 11000,
             err_message = ''E11000 duplicate key error: email jean@x.com''\<rparr>,
        [dupont, martin])"
  by code_simp

lemma jeanne_short_not_found:
  "m_findOne store0
     [FieldIs ''nom''
        (Equals (get_prop (take 3 (body_of ''Dupont'' ''Jeanne'' ''jeanne@x.com'')) ''nom'')),
      FieldIs ''prenom''
        (Equals (get_prop (take 3 (body_of ''Dupont'' ''Jeanne'' ''jeanne@x.com'')) ''prenom''))]
     [dupont, martin] = Inr None"
  by code_simp

lemma jeanne_short_invalid:
  "m_create store0 (take 3 (body_of ''Dupont'' ''Jeanne'' ''jeanne@x.com'')) [dupont, martin]
     = (Inl \<lparr>err_name = ''ValidationError'', err_code = NoCode,
             err_message = ''Etudiant validation failed: filiere''\<rparr>,
        [dupont, martin])"
  by code_simp

theorem create_insert_fails_witness:
  "fst (createEtudiant store0 (body_of ''Dupont'' ''Jeanne'' ''jean@x.com'') [dupont, martin])
     = \<lparr>status = 400, success = False, message = Some msg_email_existe,
        error = None, count = None, data = None, r_filiere = None,
        r_query = None, r_filters = None, r_sortBy = None, r_order = None\<rparr>
   \<and> fst (createEtudiant store0 (take 3 (body_of ''Dupont'' ''Jeanne'' ''jeanne@x.com''))
            [dupont, martin])
     = \<lparr>status = 400, success = False, message = Some msg_donnees_invalides,
        error = Some ''Etudiant validation failed: filiere'', count = None, data = None,
        r_filiere = None, r_query = None, r_filters = None, r_sortBy = None,
        r_order = None\<rparr>"
  using create_insert_fails[OF jeanne_not_found jeanne_duplicate_email]
        create_insert_fails[OF jeanne_short_not_found jeanne_short_invalid]
  by simp

subsection \<open>The name is taken\<close>

lemma name_filter_no_cast_error:
  "filter_cast_error [FieldIs k1 (Equals v1), FieldIs k2 (Equals v2)] = None"
  by (simp add: filter_cast_error_def)

lemma name_filter_matches:
  "matches rxm [FieldIs ''nom'' (Equals v1), FieldIs ''prenom'' (Equals v2)] e
     = (JStr (nom e) = v1 \<and> JStr (prenom e) = v2)"
  by (simp add: matches_def field_holds_def)

lemma mem_findOne_name:
  assumes "e \<in> set db" "v1 = JStr (nom e)" "v2 = JStr (prenom e)"
  shows "\<exists>d. mem_findOne rxm [FieldIs ''nom'' (Equals v1), FieldIs ''prenom'' (Equals v2)] db
               = Inr (Some d)"
proof -
  let ?P = "matches rxm [FieldIs ''nom'' (Equals v1), FieldIs ''prenom'' (Equals v2)]"
  have "?P e" using assms by (simp add: name_filter_matches)
  with assms(1) have "List.find ?P db \<noteq> None" by (auto simp: find_None_iff)
  then obtain d where "List.find ?P db = Some d" by blast
  then show ?thesis by (simp add: mem_findOne_def name_filter_no_cast_error)
qed

text \<open>
  C3. When some stored student, active or not and whatever its email, has the name
  and the first name of the body, \<open>createEtudiant\<close> answers 400 with the
  duplicate-name message and the store is left as it was.
\<close>

theorem create_duplicate_name:
  assumes "e \<in> set db"
      and "get_prop b ''nom'' = JStr (nom e)"
      and "get_prop b ''prenom'' = JStr (prenom e)"
  shows "createEtudiant (mem rxm validate) b db
           = ((json 400 False)\<lparr>message := Some msg_existe_deja\<rparr>, db)"
proof -
  obtain d where
    "mem_findOne rxm [FieldIs ''nom'' (Equals (get_prop b ''nom'')),
                      FieldIs ''prenom'' (Equals (get_prop b ''prenom''))] db = Inr (Some d)"
    using mem_findOne_name[OF assms(1), of "get_prop b ''nom''" "get_prop b ''prenom''" rxm]
      assms(2,3)
    by auto
  then show ?thesis by (simp add: createEtudiant_def)
qed

theorem create_duplicate_name_witness:
  "createEtudiant (mem plain_test spec_schema) (body_of ''Dupont'' ''Jean'' ''other@x.com'')
     [dupont\<lparr>actif := False\<rparr>, martin]
     = ((json 400 False)\<lparr>message := Some msg_existe_deja\<rparr>, [dupont\<lparr>actif := False\<rparr>, martin])"
  by (rule create_duplicate_name[of "dupont\<lparr>actif := False\<rparr>"])
     (simp_all add: get_prop_def body_of_def dupont_def)

section \<open>\<open>getEtudiantsByFiliere\<close>\<close>

lemma filiere_filter_matches:
  "matches rxm [FieldIs ''filiere'' (Equals (JStr fil))] = (\<lambda>e. filiere e = fil)"
  by (rule ext) (simp add: matches_def field_holds_def)

lemma filiere_filter_find:
  "mem_find rxm [FieldIs ''filiere'' (Equals (JStr fil))] [] db
     = Inr (filter (\<lambda>e. filiere e = fil) db)"
  by (simp add: mem_find_def filter_cast_error_def apply_sort_def filiere_filter_matches)

text \<open>
  C8. \<open>getEtudiantsByFiliere\<close> answers 200 with exactly the stored students whose
  \<open>filiere\<close> is the given value, in the store's order, active or not; \<open>count\<close> is their
  number and \<open>filiere\<close> echoes the value.
\<close>

theorem byFiliere_exact:
  "getEtudiantsByFiliere (mem rxm validate) fil db
     = (json 200 True)\<lparr>count := Some (length (filter (\<lambda>e. filiere e = fil) db)),
                       r_filiere := Some fil,
                       data := Some (Docs (filter (\<lambda>e. filiere e = fil) db))\<rparr>"
  by (simp add: getEtudiantsByFiliere_def filiere_filter_find)

theorem byFiliere_exact_witness:
  "getEtudiantsByFiliere (mem plain_test spec_schema) ''CS''
     [dupont\<lparr>actif := False\<rparr>, martin, dupont\<lparr>prenom := ''Luc''\<rparr>]
     = (json 200 True)\<lparr>count := Some 2, r_filiere := Some ''CS'',
          data := Some (Docs [dupont\<lparr>actif := False\<rparr>, dupont\<lparr>prenom := ''Luc''\<rparr>])\<rparr>"
  using byFiliere_exact[of plain_test spec_schema "''CS''"
          "[dupont\<lparr>actif := False\<rparr>, martin, dupont\<lparr>prenom := ''Luc''\<rparr>]"]
  by (simp add: dupont_def martin_def)

section \<open>\<open>deleteEtudiant\<close>\<close>

lemma find_replace_doc:
  "List.find (\<lambda>d. doc_id d = ident) db = Some e \<Longrightarrow> doc_id e' = ident \<Longrightarrow>
     List.find (\<lambda>d. doc_id d = ident) (replace_doc ident e' db) = Some e'"
  by (induction db) (auto split: if_splits)

lemma find_doc_id:
  "List.find (\<lambda>d. doc_id d = ident) db = Some e \<Longrightarrow> doc_id e = ident"
  by (auto simp: find_Some_iff)

lemma replace_doc_idem:
  "doc_id e' = ident \<Longrightarrow>
     replace_doc ident e' (replace_doc ident e' db) = replace_doc ident e' db"
  by (induction db) auto

lemma set_actif_False:
  "set_field (''actif'', JBool False) e = Inr (e\<lparr>actif := False\<rparr>)"
  by (simp add: set_field_def)

lemma mem_delete_step:
  assumes "List.find (\<lambda>d. doc_id d = ident) db = Some e" and "valid_oid ident"
  shows "mem_findByIdAndUpdate ident [(''actif'', JBool False)] \<lparr>opt_new = True\<rparr> db
           = (Inr (Some (e\<lparr>actif := False\<rparr>)), replace_doc ident (e\<lparr>actif := False\<rparr>) db)"
  using assms by (simp add: mem_findByIdAndUpdate_def set_actif_False)

text \<open>
  C7. Let the well-formed identifier \<open>ident\<close> be bound to the stored student \<open>e\<close>,
  active or not. \<open>deleteEtudiant\<close> answers 200 with \<open>e\<close> made inactive and stores it
  in the place of \<open>e\<close>. A second \<open>deleteEtudiant\<close> on the resulting store gives the same
  answer and the same store, in which \<open>ident\<close> is bound to that inactive student.
\<close>

theorem delete_idempotent:
  assumes "List.find (\<lambda>d. doc_id d = ident) db = Some e" and "valid_oid ident"
  shows "deleteEtudiant (mem rxm validate) ident db
           = ((json 200 True)\<lparr>message := Some msg_desactive,
                               data := Some (Doc (e\<lparr>actif := False\<rparr>))\<rparr>,
              replace_doc ident (e\<lparr>actif := False\<rparr>) db)
         \<and> deleteEtudiant (mem rxm validate) ident (replace_doc ident (e\<lparr>actif := False\<rparr>) db)
           = ((json 200 True)\<lparr>message := Some msg_desactive,
                               data := Some (Doc (e\<lparr>actif := False\<rparr>))\<rparr>,
              replace_doc ident (e\<lparr>actif := False\<rparr>) db)
         \<and> List.find (\<lambda>d. doc_id d = ident) (replace_doc ident (e\<lparr>actif := False\<rparr>) db)
           = Some (e\<lparr>actif := False\<rparr>)"
proof -
  let ?e = "e\<lparr>actif := False\<rparr>"
  let ?db = "replace_doc ident ?e db"
  have idn: "doc_id ?e = ident" using find_doc_id[OF assms(1)] by simp
  have f1: "List.find (\<lambda>d. doc_id d = ident) ?db = Some ?e"
    using find_replace_doc[OF assms(1) idn] .
  have s1: "mem_findByIdAndUpdate ident [(''actif'', JBool False)] \<lparr>opt_new = True\<rparr> db
              = (Inr (Some ?e), ?db)"
    using mem_delete_step[OF assms] .
  have s2: "mem_findByIdAndUpdate ident [(''actif'', JBool False)] \<lparr>opt_new = True\<rparr> ?db
              = (Inr (Some ?e), ?db)"
    using mem_delete_step[OF f1 assms(2)] replace_doc_idem[OF idn] by simp
  show ?thesis using s1 s2 f1 by (simp add: deleteEtudiant_def)
qed

lemma find_martin:
  "List.find (\<lambda>d. doc_id d = new_oid 1) [dupont, martin] = Some martin"
  by code_simp

lemma valid_oid_1: "valid_oid (new_oid 1)"
  by code_simp

lemma replace_martin:
  "replace_doc (new_oid 1) (martin\<lparr>actif := False\<rparr>) [dupont, martin]
     = [dupont, martin\<lparr>actif := False\<rparr>]"
  by code_simp

theorem delete_idempotent_witness:
  "deleteEtudiant store0 (new_oid 1) [dupont, martin]
     = ((json 200 True)\<lparr>message := Some msg_desactive,
                         data := Some (Doc (martin\<lparr>actif := False\<rparr>))\<rparr>,
        [dupont, martin\<lparr>actif := False\<rparr>])
   \<and> deleteEtudiant store0 (new_oid 1) [dupont, martin\<lparr>actif := False\<rparr>]
     = ((json 200 True)\<lparr>message := Some msg_desactive,
                         data := Some (Doc (martin\<lparr>actif := False\<rparr>))\<rparr>,
        [dupont, martin\<lparr>actif := False\<rparr>])"
proof -
  note twice = delete_idempotent[OF find_martin valid_oid_1, of plain_test spec_schema,
                 unfolded replace_martin]
  show ?thesis unfolding store0_def using twice by blast
qed

section \<open>\<open>getEtudiantsSorted\<close>\<close>

lemma num_ord_total: "num_ord a b \<or> num_ord b a"
  by (cases a; cases b) auto

lemma num_ord_trans: "num_ord a b \<Longrightarrow> num_ord b c \<Longrightarrow> num_ord a c"
  by (cases a; cases b; cases c; simp)

lemma jsval_le_total: "jsval_le a b \<or> jsval_le b a"
  by (cases a; cases b) (auto simp: num_ord_total)

lemma jsval_le_trans: "jsval_le a b \<Longrightarrow> jsval_le b c \<Longrightarrow> jsval_le a c"
  by (cases a; cases b; cases c; simp; erule (1) num_ord_trans)

lemma sort_le_total: "sort_le kd a b \<or> sort_le kd b a"
  using jsval_le_total by (auto simp: sort_le_def)

lemma sort_le_trans: "sort_le kd a b \<Longrightarrow> sort_le kd b c \<Longrightarrow> sort_le kd a c"
  using jsval_le_trans by (auto simp: sort_le_def split: if_splits)

lemma mset_insert_by: "mset (insert_by le x xs) = add_mset x (mset xs)"
  by (induction xs) auto

lemma set_insert_by: "set (insert_by le x xs) = insert x (set xs)"
  by (induction xs) auto

lemma sorted_insert_by:
  assumes total: "\<And>a b. le a b \<or> le b a" and trans: "\<And>a b c. le a b \<Longrightarrow> le b c \<Longrightarrow> le a c"
  shows "sorted_wrt le xs \<Longrightarrow> sorted_wrt le (insert_by le x xs)"
proof (induction xs)
  case Nil
  then show ?case by simp
next
  case (Cons y ys)
  show ?case
  proof (cases "le x y")
    case True
    then have "\<forall>z\<in>set ys. le x z" using Cons.prems trans by auto
    with True Cons.prems show ?thesis by simp
  next
    case False
    then have "le y x" using total by blast
    with False Cons show ?thesis by (auto simp: set_insert_by)
  qed
qed

lemma mset_sort_by: "mset (sort_by le xs) = mset xs"
  by (induction xs) (simp_all add: sort_by_def mset_insert_by)

lemma sorted_sort_by:
  assumes "\<And>a b. le a b \<or> le b a" and "\<And>a b c. le a b \<Longrightarrow> le b c \<Longrightarrow> le a c"
  shows "sorted_wrt le (sort_by le xs)"
proof (induction xs)
  case Nil
  show ?case by (simp add: sort_by_def)
next
  case (Cons x xs)
  have "sort_by le (x # xs) = insert_by le x (sort_by le xs)" by (simp add: sort_by_def)
  with Cons sorted_insert_by[of le, OF assms] show ?case by simp
qed

lemma actif_filter_matches:
  "matches rxm [FieldIs ''actif'' (Equals (JBool True))] = actif"
  by (rule ext) (simp add: matches_def field_holds_def)

lemma actif_filter_find:
  "mem_find rxm [FieldIs ''actif'' (Equals (JBool True))] so db
     = Inr (apply_sort so (filter actif db))"
  by (simp add: mem_find_def filter_cast_error_def actif_filter_matches)

lemma apply_sort_Nil: "apply_sort [] es = es"
  by (simp add: apply_sort_def)

lemma apply_sort_single: "apply_sort [kd] es = sort_by (sort_le kd) es"
  by (simp add: apply_sort_def)

lemma mset_apply_sort: "mset (apply_sort so es) = mset es"
  by (induction so) (simp_all add: apply_sort_def mset_sort_by)

lemma sorted_listing_response:
  "getEtudiantsSorted (mem rxm validate) sortBy ord db
     = (json 200 True)\<lparr>count := Some (length (apply_sort (sortOptions sortBy ord) (filter actif db))),
          r_sortBy := sortBy, r_order := ord,
          data := Some (Docs (apply_sort (sortOptions sortBy ord) (filter actif db)))\<rparr>"
  by (simp add: getEtudiantsSorted_def actif_filter_find)

lemma docs_of_sorted:
  "docs_of (getEtudiantsSorted (mem rxm validate) sortBy ord db)
     = apply_sort (sortOptions sortBy ord) (filter actif db)"
  by (simp add: sorted_listing_response docs_of_def)

lemma field_val_empty: "field_val [] e = JUndefined"
  by (simp add: field_val_def)

lemma sort_le_desc:
  "sort_le (k, - 1) = (\<lambda>a b. jsval_le (field_val k b) (field_val k a))"
  by (rule ext, rule ext) (simp add: sort_le_def)

lemma sort_le_asc:
  "sort_le (k, 1) = (\<lambda>a b. jsval_le (field_val k a) (field_val k b))"
  by (rule ext, rule ext) (simp add: sort_le_def)

lemma sorted_by_key:
  "sorted_wrt (sort_le (k, if ord = Some ''desc'' then - 1 else 1))
     (apply_sort (sortOptions (Some k) ord) es)"
proof (cases "k = []")
  case True
  then show ?thesis
    by (simp add: sortOptions_def apply_sort_Nil sort_le_desc sort_le_asc field_val_empty)
next
  case False
  then show ?thesis
    using sorted_sort_by[of "sort_le (k, if ord = Some ''desc'' then - 1 else 1)", 
          OF sort_le_total sort_le_trans]
    by (simp add: sortOptions_def apply_sort_single)
qed

text \<open>
  C6. \<open>getEtudiantsSorted\<close> answers 200 with the active students, each once. When
  \<open>sortBy\<close> is present they are in the order of its field: every earlier document's
  value is at least every later one's when \<open>order\<close> is exactly \<open>desc\<close>, and at most
  every later one's for any other \<open>order\<close>, absent included. When \<open>sortBy\<close> is absent
  the sort criterion is empty and the students come in the store's order.
\<close>

theorem sorted_listing:
  "status (getEtudiantsSorted (mem rxm validate) sortBy ord db) = 200
   \<and> data (getEtudiantsSorted (mem rxm validate) sortBy ord db)
       = Some (Docs (docs_of (getEtudiantsSorted (mem rxm validate) sortBy ord db)))
   \<and> mset (docs_of (getEtudiantsSorted (mem rxm validate) sortBy ord db)) = mset (filter actif db)
   \<and> (case sortBy of
        None \<Rightarrow>
          sortOptions sortBy ord = []
          \<and> docs_of (getEtudiantsSorted (mem rxm validate) sortBy ord db) = filter actif db
      | Some k \<Rightarrow>
          if ord = Some ''desc''
          then sorted_wrt (\<lambda>a b. jsval_le (field_val k b) (field_val k a))
                 (docs_of (getEtudiantsSorted (mem rxm validate) sortBy ord db))
          else sorted_wrt (\<lambda>a b. jsval_le (field_val k a) (field_val k b))
                 (docs_of (getEtudiantsSorted (mem rxm validate) sortBy ord db)))"
proof -
  have a: "status (getEtudiantsSorted (mem rxm validate) sortBy ord db) = 200"
    by (simp add: sorted_listing_response)
  have b: "data (getEtudiantsSorted (mem rxm validate) sortBy ord db)
       = Some (Docs (docs_of (getEtudiantsSorted (mem rxm validate) sortBy ord db)))"
    by (simp add: docs_of_sorted) (simp add: sorted_listing_response)
  have c: "mset (docs_of (getEtudiantsSorted (mem rxm validate) sortBy ord db)) = mset (filter actif db)"
    by (simp add: docs_of_sorted mset_apply_sort)
  have d: "(case sortBy of
        None \<Rightarrow>
          sortOptions sortBy ord = []
          \<and> docs_of (getEtudiantsSorted (mem rxm validate) sortBy ord db) = filter actif db
      | Some k \<Rightarrow>
          if ord = Some ''desc''
          then sorted_wrt (\<lambda>a b. jsval_le (field_val k b) (field_val k a))
                 (docs_of (getEtudiantsSorted (mem rxm validate) sortBy ord db))
          else sorted_wrt (\<lambda>a b. jsval_le (field_val k a) (field_val k b))
                 (docs_of (getEtudiantsSorted (mem rxm validate) sortBy ord db)))"
  proof (cases sortBy)
    case None
    then show ?thesis by (simp add: docs_of_sorted) (simp add: sortOptions_def apply_sort_Nil)
  next
    case (Some k)
    then show ?thesis
      using sorted_by_key[of k ord "filter actif db"]
      by (simp add: docs_of_sorted sort_le_desc sort_le_asc split: if_splits)
  qed
  from a b c d show ?thesis by blast
qed

lemma sorted_sample_docs:
  "docs_of (getEtudiantsSorted store0 (Some ''moyenne'') (Some ''desc'')
              [dupont, martin\<lparr>actif := False\<rparr>, martin])
     = [martin, dupont]"
  by code_simp

lemma sample_actif:
  "filter actif [dupont, martin\<lparr>actif := False\<rparr>, martin] = [dupont, martin]"
  by code_simp

theorem sorted_listing_witness:
  "sorted_wrt (\<lambda>a b. jsval_le (field_val ''moyenne'' b) (field_val ''moyenne'' a)) [martin, dupont]
   \<and> mset [martin, dupont] = mset [dupont, martin]
   \<and> data (getEtudiantsSorted store0 (Some ''moyenne'') (Some ''desc'')
              [dupont, martin\<lparr>actif := False\<rparr>, martin])
       = Some (Docs [martin, dupont])"
proof -
  note inst = sorted_listing[of plain_test spec_schema "Some ''moyenne''" "Some ''desc''"
                "[dupont, martin\<lparr>actif := False\<rparr>, martin]",
                folded store0_def, unfolded sorted_sample_docs sample_actif]
  then show ?thesis by simp
qed

section \<open>\<open>searchEtudiants\<close> with a pattern\<close>

lemma search_filter_no_cast_error: "filter_cast_error (search_filter r) = None"
  by (simp add: filter_cast_error_def search_filter_def)

lemma search_filter_matches:
  "matches rxm (search_filter r) = (\<lambda>e. actif e \<and> (rxm r (nom e) \<or> rxm r (prenom e)))"
  by (rule ext) (simp add: matches_def search_filter_def field_holds_def)

lemma search_filter_find:
  "mem_find rxm (search_filter r) [] db
     = Inr (filter (\<lambda>e. actif e \<and> (rxm r (nom e) \<or> rxm r (prenom e))) db)"
  by (simp add: mem_find_def search_filter_no_cast_error search_filter_matches apply_sort_def)

lemma search_with_pattern:
  assumes "q \<noteq> []"
  shows "searchEtudiants chk (mem rxm validate) (Some q) db =
           (case chk q of
              Some err \<Rightarrow> erreur_serveur err
            | None \<Rightarrow>
                (json 200 True)
                  \<lparr>count := Some (length (filter (\<lambda>e. actif e \<and> (rxm (RegExp q ''i'') (nom e)
                                \<or> rxm (RegExp q ''i'') (prenom e))) db)),
                   r_query := Some q,
                   data := Some (Docs (filter (\<lambda>e. actif e \<and> (rxm (RegExp q ''i'') (nom e)
                                \<or> rxm (RegExp q ''i'') (prenom e))) db))\<rparr>)"
  using assms
  by (simp add: searchEtudiants_def new_RegExp_def search_filter_find split: option.split)

lemma parse_atoms_literal:
  "\<not> list_ex syntax_char q \<Longrightarrow> parse_atoms q = Some (map Lit q)"
proof (induction q rule: parse_atoms.induct)
  case 1
  show ?case by simp
next
  case (2 c)
  then show ?case by (auto simp: syntax_char_def)
next
  case (3 c d ds)
  then have "c \<noteq> CHR 0x5C" "c \<noteq> CHR ''.''" "\<not> syntax_char c"
    by (auto simp: syntax_char_def)
  with 3 show ?case by simp
qed

lemma match_here_literal:
  "match_here True (map Lit q) s = prefix (map canonicalize q) (map canonicalize s)"
proof (induction q arbitrary: s)
  case Nil
  show ?case by simp
next
  case (Cons c q)
  show ?case by (cases s) (simp_all add: Cons.IH)
qed

lemma match_anywhere_literal:
  "match_anywhere True (map Lit q) s = sublist (map canonicalize q) (map canonicalize s)"
proof (induction s)
  case Nil
  show ?case by (cases q) simp_all
next
  case (Cons c s)
  show ?case
    using Cons.IH match_here_literal[of q "c # s"]
    by (simp add: sublist_Cons_right)
qed

lemma plain_test_literal:
  "\<not> list_ex syntax_char q \<Longrightarrow> plain_test (RegExp q ''i'') s = ci_substring q s"
  by (simp add: plain_test_def parse_atoms_literal match_anywhere_literal ci_substring_def)

lemma plain_check_literal:
  "\<not> list_ex syntax_char q \<Longrightarrow> plain_check q = None"
  by (cases q) (auto simp: plain_check_def parse_atoms_literal syntax_char_def)

text \<open>
  C2 as stated fails: \<open>.\<close> is a substring of neither name of the two sample students,
  yet the search for \<open>.\<close> returns both, since the pattern matches any character.
\<close>

theorem search_metachar_counterexample:
  "data (searchEtudiants plain_check store0 (Some ''.'') [dupont, martin])
      = Some (Docs [dupont, martin])
   \<and> spec_search ''.'' [dupont, martin] = []"
  by code_simp

text \<open>
  C2, amended. For a non-empty \<open>q\<close>, \<open>searchEtudiants\<close> reads \<open>q\<close> as a regular
  expression: when the constructor rejects the pattern it answers 500, and otherwise
  it answers 200 with exactly the active students whose \<open>nom\<close> or \<open>prenom\<close> the store
  matches against that expression under the flag \<open>i\<close>. When \<open>q\<close> has no syntax
  character of regular expressions, these are exactly the active students whose \<open>nom\<close>
  or \<open>prenom\<close> contains \<open>q\<close> as a case-insensitive substring.
\<close>

theorem search_by_pattern:
  assumes "q \<noteq> []"
  shows "searchEtudiants chk (mem rxm validate) (Some q) db =
           (case chk q of
              Some err \<Rightarrow> erreur_serveur err
            | None \<Rightarrow>
                (json 200 True)
                  \<lparr>count := Some (length (filter (\<lambda>e. actif e \<and> (rxm (RegExp q ''i'') (nom e)
                                \<or> rxm (RegExp q ''i'') (prenom e))) db)),
                   r_query := Some q,
                   data := Some (Docs (filter (\<lambda>e. actif e \<and> (rxm (RegExp q ''i'') (nom e)
                                \<or> rxm (RegExp q ''i'') (prenom e))) db))\<rparr>)
         \<and> (\<not> list_ex syntax_char q \<longrightarrow>
              searchEtudiants plain_check (mem plain_test validate) (Some q) db =
                (json 200 True)\<lparr>count := Some (length (spec_search q db)), r_query := Some q,
                                data := Some (Docs (spec_search q db))\<rparr>)"
proof (intro conjI impI)
  show "searchEtudiants chk (mem rxm validate) (Some q) db =
           (case chk q of
              Some err \<Rightarrow> erreur_serveur err
            | None \<Rightarrow>
                (json 200 True)
                  \<lparr>count := Some (length (filter (\<lambda>e. actif e \<and> (rxm (RegExp q ''i'') (nom e)
                                \<or> rxm (RegExp q ''i'') (prenom e))) db)),
                   r_query := Some q,
                   data := Some (Docs (filter (\<lambda>e. actif e \<and> (rxm (RegExp q ''i'') (nom e)
                                \<or> rxm (RegExp q ''i'') (prenom e))) db))\<rparr>)"
    using search_with_pattern[OF assms] .
next
  assume lit: "\<not> list_ex syntax_char q"
  have "filter (\<lambda>e. actif e \<and> (plain_test (RegExp q ''i'') (nom e)
                                \<or> plain_test (RegExp q ''i'') (prenom e))) db = spec_search q db"
    by (simp add: spec_search_def plain_test_literal[OF lit])
  then show "searchEtudiants plain_check (mem plain_test validate) (Some q) db =
                (json 200 True)\<lparr>count := Some (length (spec_search q db)), r_query := Some q,
                                data := Some (Docs (spec_search q db))\<rparr>"
    using search_with_pattern[OF assms, of plain_check plain_test validate db]
    by (simp add: plain_check_literal[OF lit])
qed

theorem search_by_pattern_witness:
  "searchEtudiants plain_check (mem plain_test spec_schema) (Some ''mar'')
      [dupont, martin, martin\<lparr>actif := False\<rparr>, dupont\<lparr>prenom := ''Marie''\<rparr>]
     = (json 200 True)\<lparr>count := Some 2, r_query := Some ''mar'',
                       data := Some (Docs [martin, dupont\<lparr>prenom := ''Marie''\<rparr>])\<rparr>"
proof -
  have lit: "\<not> list_ex syntax_char ''mar''" by code_simp
  have hits: "spec_search ''mar'' [dupont, martin, martin\<lparr>actif := False\<rparr>, dupont\<lparr>prenom := ''Marie''\<rparr>]
               = [martin, dupont\<lparr>prenom := ''Marie''\<rparr>]"
    by code_simp
  have ne: "''mar'' \<noteq> []" by simp
  from search_by_pattern[OF ne, of plain_check plain_test spec_schema
      "[dupont, martin, martin\<lparr>actif := False\<rparr>, dupont\<lparr>prenom := ''Marie''\<rparr>]"] lit
  have "searchEtudiants plain_check (mem plain_test spec_schema) (Some ''mar'')
          [dupont, martin, martin\<lparr>actif := False\<rparr>, dupont\<lparr>prenom := ''Marie''\<rparr>]
        = (json 200 True)
            \<lparr>count := Some (length (spec_search ''mar''
                 [dupont, martin, martin\<lparr>actif := False\<rparr>, dupont\<lparr>prenom := ''Marie''\<rparr>])),
             r_query := Some ''mar'',
             data := Some (Docs (spec_search ''mar''
                 [dupont, martin, martin\<lparr>actif := False\<rparr>, dupont\<lparr>prenom := ''Marie''\<rparr>]))\<rparr>"
    by blast
  then show ?thesis unfolding hits by simp
qed

section \<open>\<open>advancedSearch\<close>\<close>

lemma opt_append:
  "(case p of None \<Rightarrow> f | Some s \<Rightarrow> if s = [] then f else f @ [g s])
     = f @ (if truthy p then [g (str_of p)] else [])"
  by (cases p) (simp_all add: str_of_def)

lemma annee_ops_eq:
  "annee_ops a b = (if truthy a then [(Gte, parseInt (str_of a))] else [])
                 @ (if truthy b then [(Lte, parseInt (str_of b))] else [])"
  by (cases a; cases b) (simp_all add: annee_ops_def str_of_def)

lemma nom_step:
  "(case p of None \<Rightarrow> Inr f
    | Some n \<Rightarrow> if n = [] then Inr f
               else (case new_RegExp chk n ''i'' of Inl err \<Rightarrow> Inl err
                     | Inr regex \<Rightarrow> Inr (f @ [FieldIs ''nom'' (Matches regex)])))
   = (if truthy p then
        (case chk (str_of p) of
           Some err \<Rightarrow> Inl err
         | None \<Rightarrow> Inr (f @ [FieldIs ''nom'' (Matches (RegExp (str_of p) ''i''))]))
      else Inr f)"
  by (cases p) (simp_all add: str_of_def new_RegExp_def split: option.split)

lemma advancedSearch_filter_eq:
  "advancedSearch_filter chk q =
     (if truthy (q_nom q) then
        (case chk (str_of (q_nom q)) of Some err \<Rightarrow> Inl err | None \<Rightarrow> Inr (spec_filter q))
      else Inr (spec_filter q))"
  unfolding advancedSearch_filter_def Let_def nom_step opt_append spec_filter_def annee_ops_eq
  by (simp split: option.split)


lemma spec_filter_keys:
  "filter_keys (spec_filter q) =
     [''actif'']
     @ (if truthy (q_nom q) then [''nom''] else [])
     @ (if truthy (q_filiere q) then [''filiere''] else [])
     @ (if truthy (q_anneeMin q) \<or> truthy (q_anneeMax q) then [''annee''] else [])
     @ (if truthy (q_moyenneMin q) then [''moyenne''] else [])"
  by (simp add: filter_keys_def spec_filter_def)

lemma spec_filter_key_set:
  "k \<in> set (filter_keys (spec_filter q)) \<longleftrightarrow>
     k = ''actif'' \<or> (k = ''nom'' \<and> truthy (q_nom q)) \<or> (k = ''filiere'' \<and> truthy (q_filiere q))
     \<or> (k = ''annee'' \<and> (truthy (q_anneeMin q) \<or> truthy (q_anneeMax q)))
     \<or> (k = ''moyenne'' \<and> truthy (q_moyenneMin q))"
  unfolding spec_filter_keys by auto

lemma spec_filter_distinct: "distinct (filter_keys (spec_filter q))"
  unfolding spec_filter_keys by simp

text \<open>
  What the specification's filter asks of a student in the store: to be active and to
  satisfy every condition that is present. The range conditions are inclusive, and either
  year bound stands alone when the other is absent.
\<close>

lemma spec_filter_matches:
  "matches rxm (spec_filter q) e \<longleftrightarrow>
     actif e
     \<and> (truthy (q_nom q) \<longrightarrow> rxm (RegExp (str_of (q_nom q)) ''i'') (nom e))
     \<and> (truthy (q_filiere q) \<longrightarrow> filiere e = str_of (q_filiere q))
     \<and> (truthy (q_anneeMin q) \<longrightarrow> num_le (parseInt (str_of (q_anneeMin q))) (annee e))
     \<and> (truthy (q_anneeMax q) \<longrightarrow> num_le (annee e) (parseInt (str_of (q_anneeMax q))))
     \<and> (truthy (q_moyenneMin q) \<longrightarrow> num_le (parseFloat (str_of (q_moyenneMin q))) (moyenne e))"
  by (auto simp: matches_def spec_filter_def field_holds_def)

lemma spec_filter_get:
  "filter_get (spec_filter q) ''actif'' = Some (Equals (JBool True))"
  "filter_get (spec_filter q) ''nom'' =
     (if truthy (q_nom q) then Some (Matches (RegExp (str_of (q_nom q)) ''i'')) else None)"
  "filter_get (spec_filter q) ''filiere'' =
     (if truthy (q_filiere q) then Some (Equals (JStr (str_of (q_filiere q)))) else None)"
  "filter_get (spec_filter q) ''annee'' =
     (if truthy (q_anneeMin q) \<or> truthy (q_anneeMax q)
      then Some (Ops ((if truthy (q_anneeMin q) then [(Gte, parseInt (str_of (q_anneeMin q)))] else [])
                    @ (if truthy (q_anneeMax q) then [(Lte, parseInt (str_of (q_anneeMax q)))] else [])))
      else None)"
  "filter_get (spec_filter q) ''moyenne'' =
     (if truthy (q_moyenneMin q) then Some (Ops [(Gte, parseFloat (str_of (q_moyenneMin q)))]) else None)"
  by (simp_all add: spec_filter_def)

text \<open>
  C5 as stated fails: with \<open>nom = *\<close> the constructor of the regular expression throws
  (nothing to repeat) and \<open>advancedSearch\<close> builds no filter at all.
\<close>

theorem advancedSearch_bad_pattern_counterexample:
  "advancedSearch_filter plain_check (q_only (Some ''*'') None)
     = Inl \<lparr>err_name = ''SyntaxError'', err_code = NoCode,
            err_message = ''Invalid regular expression: /*/i: Nothing to repeat''\<rparr>"
  by code_simp

text \<open>
  C5, amended. Whenever \<open>nom\<close> is absent, empty or a pattern the constructor accepts,
  \<open>advancedSearch\<close> builds the specification's filter. Its keys are distinct; they
  are \<open>actif\<close> and exactly the keys whose parameter is present and non-empty (\<open>annee\<close>
  for either year bound). Under \<open>actif\<close> it holds \<open>true\<close>, under \<open>nom\<close> the regular
  expression \<open>nom\<close> with the flag \<open>i\<close>, under \<open>filiere\<close> the parameter itself, under
  \<open>annee\<close> the bounds \<open>$gte: parseInt(anneeMin)\<close> and \<open>$lte: parseInt(anneeMax)\<close>,
  each only when its parameter is present and non-empty, and under \<open>moyenne\<close> the bound
  \<open>$gte: parseFloat(moyenneMin)\<close>.
\<close>

theorem advancedSearch_builds_filter:
  assumes "\<not> truthy (q_nom q) \<or> chk (str_of (q_nom q)) = None"
  shows "advancedSearch_filter chk q = Inr (spec_filter q)
         \<and> distinct (filter_keys (spec_filter q))
         \<and> (\<forall>k. k \<in> set (filter_keys (spec_filter q)) \<longleftrightarrow>
               k = ''actif'' \<or> (k = ''nom'' \<and> truthy (q_nom q))
               \<or> (k = ''filiere'' \<and> truthy (q_filiere q))
               \<or> (k = ''annee'' \<and> (truthy (q_anneeMin q) \<or> truthy (q_anneeMax q)))
               \<or> (k = ''moyenne'' \<and> truthy (q_moyenneMin q)))
         \<and> filter_get (spec_filter q) ''actif'' = Some (Equals (JBool True))
         \<and> filter_get (spec_filter q) ''nom'' =
             (if truthy (q_nom q) then Some (Matches (RegExp (str_of (q_nom q)) ''i'')) else None)
         \<and> filter_get (spec_filter q) ''filiere'' =
             (if truthy (q_filiere q) then Some (Equals (JStr (str_of (q_filiere q)))) else None)
         \<and> filter_get (spec_filter q) ''annee'' =
             (if truthy (q_anneeMin q) \<or> truthy (q_anneeMax q)
              then Some (Ops ((if truthy (q_anneeMin q)
                               then [(Gte, parseInt (str_of (q_anneeMin q)))] else [])
                            @ (if truthy (q_anneeMax q)
                               then [(Lte, parseInt (str_of (q_anneeMax q)))] else [])))
              else None)
         \<and> filter_get (spec_filter q) ''moyenne'' =
             (if truthy (q_moyenneMin q)
              then Some (Ops [(Gte, parseFloat (str_of (q_moyenneMin q)))]) else None)"
proof -
  have built: "advancedSearch_filter chk q = Inr (spec_filter q)"
    using assms by (auto simp: advancedSearch_filter_eq)
  show ?thesis
  proof (intro conjI allI)
    show "advancedSearch_filter chk q = Inr (spec_filter q)" by (rule built)
  qed (rule spec_filter_distinct spec_filter_key_set spec_filter_get)+
qed

lemma sample_query_pattern_ok:
  "\<not> truthy (q_nom \<lparr>q_nom = Some ''mar'', q_filiere = Some ''Math'', q_anneeMin = Some ''2020'',
                     q_anneeMax = None, q_moyenneMin = Some []\<rparr>)
   \<or> plain_check (str_of (q_nom \<lparr>q_nom = Some ''mar'', q_filiere = Some ''Math'',
                     q_anneeMin = Some ''2020'', q_anneeMax = None, q_moyenneMin = Some []\<rparr>)) = None"
  by code_simp

lemma sample_query_filter:
  "spec_filter \<lparr>q_nom = Some ''mar'', q_filiere = Some ''Math'', q_anneeMin = Some ''2020'',
                q_anneeMax = None, q_moyenneMin = Some []\<rparr>
     = [FieldIs ''actif'' (Equals (JBool True)),
        FieldIs ''nom'' (Matches (RegExp ''mar'' ''i'')),
        FieldIs ''filiere'' (Equals (JStr ''Math'')),
        FieldIs ''annee'' (Ops [(Gte, Fin 2020)])]"
  by code_simp

theorem advancedSearch_builds_filter_witness:
  "advancedSearch_filter plain_check
     \<lparr>q_nom = Some ''mar'', q_filiere = Some ''Math'', q_anneeMin = Some ''2020'',
      q_anneeMax = None, q_moyenneMin = Some []\<rparr>
     = Inr [FieldIs ''actif'' (Equals (JBool True)),
            FieldIs ''nom'' (Matches (RegExp ''mar'' ''i'')),
            FieldIs ''filiere'' (Equals (JStr ''Math'')),
            FieldIs ''annee'' (Ops [(Gte, Fin 2020)])]"
proof -
  note built = advancedSearch_builds_filter[
      where q = "\<lparr>q_nom = Some ''mar'', q_filiere = Some ''Math'', q_anneeMin = Some ''2020'',
                  q_anneeMax = None, q_moyenneMin = Some []\<rparr>"
        and chk = plain_check,
      OF sample_query_pattern_ok, THEN conjunct1, unfolded sample_query_filter]
  then show ?thesis .
qed

lemma advancedSearch_filter_throws:
  "isl (advancedSearch_filter chk q) \<longleftrightarrow> truthy (q_nom q) \<and> chk (str_of (q_nom q)) \<noteq> None"
  by (auto simp: advancedSearch_filter_eq split: option.splits)

text \<open>
  C10 as stated fails: with \<open>nom = *\<close> the answer is 500 and carries the syntax error of
  the regular expression; no filter was built, so the store was not called and did not
  fail.
\<close>

theorem advancedSearch_500_counterexample:
  "status (advancedSearch plain_check store0 (q_only (Some ''*'') None) [dupont, martin]) = 500
   \<and> error (advancedSearch plain_check store0 (q_only (Some ''*'') None) [dupont, martin])
       = Some ''Invalid regular expression: /*/i: Nothing to repeat''
   \<and> isl (advancedSearch_filter plain_check (q_only (Some ''*'') None))"
  by code_simp

text \<open>
  C10, amended. \<open>advancedSearch\<close> validates none of its parameters and never answers
  400: for every input, pattern check, model object and store the status is 200 or 500.
  It is 500 exactly when building the filter throws or the call of \<open>find\<close> on the built
  filter fails, and building the filter throws exactly when \<open>nom\<close> is non-empty and the
  constructor of the regular expression rejects it. It is 200 exactly when the envelope
  is a success with the echoed parameters and the documents.
\<close>

theorem advancedSearch_outcomes:
  "(status (advancedSearch chk M q db) = 200 \<or> status (advancedSearch chk M q db) = 500)
   \<and> (status (advancedSearch chk M q db) = 500) =
       (case advancedSearch_filter chk q of
          Inl err \<Rightarrow> True
        | Inr f \<Rightarrow> isl (m_find M f [] db))
   \<and> isl (advancedSearch_filter chk q) = (truthy (q_nom q) \<and> chk (str_of (q_nom q)) \<noteq> None)
   \<and> (status (advancedSearch chk M q db) = 200) =
       (success (advancedSearch chk M q db) \<and> r_filters (advancedSearch chk M q db) = Some q
        \<and> data (advancedSearch chk M q db) \<noteq> None)"
proof -
  have a: "isl (advancedSearch_filter chk q) = (truthy (q_nom q) \<and> chk (str_of (q_nom q)) \<noteq> None)"
    by (rule advancedSearch_filter_throws)
  show ?thesis
  proof (cases "advancedSearch_filter chk q")
    case (Inl err)
    then show ?thesis using a by (simp add: advancedSearch_def erreur_serveur_def json_def)
  next
    case (Inr f)
    show ?thesis
    proof (cases "m_find M f [] db")
      case (Inl err)
      with Inr a show ?thesis by (simp add: advancedSearch_def erreur_serveur_def json_def)
    next
      case (Inr es)
      with \<open>advancedSearch_filter chk q = Inr f\<close> a show ?thesis
        by (simp add: advancedSearch_def json_def)
    qed
  qed
qed

lemma nan_query_filter:
  "advancedSearch_filter plain_check (q_only None (Some ''abc''))
     = Inr [FieldIs ''actif'' (Equals (JBool True)), FieldIs ''annee'' (Ops [(Gte, NaN)])]"
  by code_simp

lemma nan_query_find:
  "isl (m_find store0 [FieldIs ''actif'' (Equals (JBool True)), FieldIs ''annee'' (Ops [(Gte, NaN)])]
          [] [dupont, martin])"
  by code_simp

lemma year_query_filter:
  "advancedSearch_filter plain_check (q_only None (Some ''2022''))
     = Inr [FieldIs ''actif'' (Equals (JBool True)), FieldIs ''annee'' (Ops [(Gte, Fin 2022)])]"
  by code_simp

lemma year_query_find:
  "\<not> isl (m_find store0
            [FieldIs ''actif'' (Equals (JBool True)), FieldIs ''annee'' (Ops [(Gte, Fin 2022)])]
            [] [dupont, martin])"
  by code_simp

theorem advancedSearch_outcomes_witness:
  "status (advancedSearch plain_check store0 (q_only None (Some ''abc'')) [dupont, martin]) = 500
   \<and> status (advancedSearch plain_check store0 (q_only None (Some ''2022'')) [dupont, martin]) = 200"
proof -
  note nan = advancedSearch_outcomes[of plain_check store0 "q_only None (Some ''abc'')"
               "[dupont, martin]", unfolded nan_query_filter]
  note year = advancedSearch_outcomes[of plain_check store0 "q_only None (Some ''2022'')"
                "[dupont, martin]", unfolded year_query_filter]
  from nan[THEN conjunct2, THEN conjunct1] nan_query_find
  have a: "status (advancedSearch plain_check store0 (q_only None (Some ''abc'')) [dupont, martin])
             = 500"
    by simp
  from year[THEN conjunct2, THEN conjunct1] year_query_find
  have "status (advancedSearch plain_check store0 (q_only None (Some ''2022'')) [dupont, martin])
          \<noteq> 500"
    by simp
  with year[THEN conjunct1]
  have b: "status (advancedSearch plain_check store0 (q_only None (Some ''2022'')) [dupont, martin])
             = 200"
    by blast
  from a b show ?thesis by blast
qed

end
